theory Spec2Isabelle
  imports Main
begin

section \<open>Data model\<close>

text \<open>
  Go's \<open>context.Context\<close>: the two contexts the repository creates
  (\<open>context.Background()\<close> in the examples, \<open>context.TODO()\<close> in the tests).
\<close>

datatype Context = Background | TODO

text \<open>
  Go's \<open>error\<close> interface as the sum of the concrete errors that reach the client:
  \<open>errors.New(msg)\<close>, \<open>errors.Wrap(err, msg)\<close> of github.com/pkg/errors, the
  package's own \<open>*HttpError{Url, StatusCode, Body, Err}\<close>, and the error with which the
  retry library gives up (method, URL, attempts, last error). A nil error is \<open>None\<close> of
  \<open>error option\<close>.
\<close>

datatype error =
    ErrorsNew string
  | Wrap error string
  | HttpError string int string "error option"
  | GivingUp string string nat "error option"

text \<open>
  A response body is a stream. \<open>content\<close> is what it holds, \<open>readErr\<close> the failure
  its \<open>Read\<close> reports (if any), and \<open>ops\<close> the operations the client has performed on
  it so far, oldest first: handing it to \<open>ioReadAll\<close>, handing it to \<open>jsonDecode\<close>,
  calling \<open>Close\<close>.
\<close>

datatype body_op = OpReadAll | OpDecode | OpClose

record body =
  content :: string
  readErr :: "error option"
  ops :: "body_op list"

text \<open>\<open>*http.Response\<close>: the two fields the client looks at. A nil response is \<open>None\<close>.\<close>

record response =
  StatusCode :: int
  Body :: body

text \<open>\<open>*http.Request\<close>, with \<open>URL\<close> as the string \<open>req.URL.String()\<close> gives.\<close>

record request =
  Ctx :: Context
  Method :: string
  URL :: string
  Header :: "(string \<times> string) list"
  ContentLength :: int
  Body_req :: string

text \<open>\<open>retryablehttp.CheckRetry\<close>: \<open>func(ctx, resp, err) (bool, error)\<close>.\<close>

type_synonym CheckRetry = "Context \<Rightarrow> response option \<Rightarrow> error option \<Rightarrow> bool \<times> error option"

text \<open>
  The \<open>*retryablehttp.Client\<close> held by \<open>retryableHttpClientWrapper\<close>: the four fields
  the wrapper's setters assign. Durations are nanosecond counts.
\<close>

record retryablehttp_Client =
  RetryMax :: int
  RetryWaitMin :: int
  RetryWaitMax :: int
  CheckRetry :: CheckRetry

definition SetRetryMax :: "int \<Rightarrow> retryablehttp_Client \<Rightarrow> retryablehttp_Client" where
  "SetRetryMax maxRetries r = r\<lparr>RetryMax := maxRetries\<rparr>"

definition SetRetryWaitMin :: "int \<Rightarrow> retryablehttp_Client \<Rightarrow> retryablehttp_Client" where
  "SetRetryWaitMin minWait r = r\<lparr>RetryWaitMin := minWait\<rparr>"

definition SetRetryWaitMax :: "int \<Rightarrow> retryablehttp_Client \<Rightarrow> retryablehttp_Client" where
  "SetRetryWaitMax maxWait r = r\<lparr>RetryWaitMax := maxWait\<rparr>"

definition SetCheckRetry :: "CheckRetry \<Rightarrow> retryablehttp_Client \<Rightarrow> retryablehttp_Client" where
  "SetCheckRetry checkRetry r = r\<lparr>CheckRetry := checkRetry\<rparr>"

text \<open>
  The dump logger is a callback \<open>func(dump []byte)\<close>; the model keeps its identity and
  records each call to it as an event.
\<close>

datatype dump_logger = DumpLogger nat

text \<open>
  The struct \<open>client\<close> of package httpclient. \<open>new(client)\<close> is the zero value: every
  number 0, every pointer, interface and function nil, the flag false.
\<close>

record client =
  retryableHttpClient :: "retryablehttp_Client option"
  maxIdleConns :: int
  maxIdleConnsPerHost :: int
  maxConnsPerHost :: int
  maxRetries :: int
  checkRetryPolicy :: "CheckRetry option"
  retryWaitMin :: int
  retryWaitMax :: int
  requestDumpLogger :: "dump_logger option"
  dumpRequestBody :: bool

definition new_client :: client where
  "new_client = \<lparr>retryableHttpClient = None, maxIdleConns = 0, maxIdleConnsPerHost = 0,
     maxConnsPerHost = 0, maxRetries = 0, checkRetryPolicy = None, retryWaitMin = 0,
     retryWaitMax = 0, requestDumpLogger = None, dumpRequestBody = False\<rparr>"

section \<open>Options of package httpclient\<close>

text \<open>
  An \<open>Option\<close> is a closure \<open>func(*client)\<close>; the type \<open>client\<close> is unexported, so the
  eight constructors below build every option there is. \<open>applyOption\<close> is the body of the
  closure each of them returns.
\<close>

datatype Option =
    WithMaxIdleConns int
  | WithMaxIdleConnsPerHost int
  | WithMaxConnsPerHost int
  | WithMaxRetries int
  | WithRetryWaitMin int
  | WithRetryWaitMax int
  | WithCheckRetryPolicy "CheckRetry option"
  | WithRequestDumpLogger "dump_logger option" bool

fun applyOption :: "Option \<Rightarrow> client \<Rightarrow> client" where
  "applyOption (WithMaxIdleConns n) c = c\<lparr>maxIdleConns := n\<rparr>"
| "applyOption (WithMaxIdleConnsPerHost n) c = c\<lparr>maxIdleConnsPerHost := n\<rparr>"
| "applyOption (WithMaxConnsPerHost n) c = c\<lparr>maxConnsPerHost := n\<rparr>"
| "applyOption (WithMaxRetries n) c = c\<lparr>maxRetries := n\<rparr>"
| "applyOption (WithRetryWaitMin n) c = c\<lparr>retryWaitMin := n\<rparr>"
| "applyOption (WithRetryWaitMax n) c = c\<lparr>retryWaitMax := n\<rparr>"
| "applyOption (WithCheckRetryPolicy p) c = c\<lparr>checkRetryPolicy := p\<rparr>"
| "applyOption (WithRequestDumpLogger l b) c = c\<lparr>requestDumpLogger := l, dumpRequestBody := b\<rparr>"

text \<open>\<open>newClient\<close>: the options are applied in order to \<open>new(client)\<close>.\<close>

definition newClient :: "Option list \<Rightarrow> client" where
  "newClient options = foldl (\<lambda>c option. applyOption option c) new_client options"

text \<open>The configuration fields of \<open>client\<close>, and those on which two clients differ.\<close>

datatype field =
    F_maxIdleConns | F_maxIdleConnsPerHost | F_maxConnsPerHost | F_maxRetries
  | F_checkRetryPolicy | F_retryWaitMin | F_retryWaitMax | F_requestDumpLogger
  | F_dumpRequestBody

definition differing_fields :: "client \<Rightarrow> client \<Rightarrow> field list" where
  "differing_fields c c' =
     (if maxIdleConns c \<noteq> maxIdleConns c' then [F_maxIdleConns] else []) @
     (if maxIdleConnsPerHost c \<noteq> maxIdleConnsPerHost c' then [F_maxIdleConnsPerHost] else []) @
     (if maxConnsPerHost c \<noteq> maxConnsPerHost c' then [F_maxConnsPerHost] else []) @
     (if maxRetries c \<noteq> maxRetries c' then [F_maxRetries] else []) @
     (if checkRetryPolicy c \<noteq> checkRetryPolicy c' then [F_checkRetryPolicy] else []) @
     (if retryWaitMin c \<noteq> retryWaitMin c' then [F_retryWaitMin] else []) @
     (if retryWaitMax c \<noteq> retryWaitMax c' then [F_retryWaitMax] else []) @
     (if requestDumpLogger c \<noteq> requestDumpLogger c' then [F_requestDumpLogger] else []) @
     (if dumpRequestBody c \<noteq> dumpRequestBody c' then [F_dumpRequestBody] else [])"

section \<open>Construction of the client\<close>

text \<open>
  \<open>doNotRetryPolicy\<close>, the default retry policy: \<open>return false, nil\<close>.
\<close>

definition doNotRetryPolicy :: CheckRetry where
  "doNotRetryPolicy ctx resp err = (False, None)"

text \<open>
  \<open>patchRetryableClient\<close>: the four setters in the order of the source, on the
  retryable client the struct holds. It is called by \<open>New\<close> only, once the wrapper is
  installed; on a nil wrapper the model leaves the client as it is.
\<close>

definition patchRetryableClient :: "client \<Rightarrow> client" where
  "patchRetryableClient c =
     c\<lparr>retryableHttpClient :=
         map_option
           (\<lambda>r0. let r1 = SetRetryMax (maxRetries c) r0;
                     r2 = SetRetryWaitMin (retryWaitMin c) r1;
                     r3 = SetRetryWaitMax (retryWaitMax c) r2;
                     r4 = SetCheckRetry doNotRetryPolicy r3
                 in (case checkRetryPolicy c of
                       Some p \<Rightarrow> SetCheckRetry p r4
                     | None \<Rightarrow> r4))
           (retryableHttpClient c)\<rparr>"

text \<open>
  \<open>New\<close>. The argument \<open>nc\<close> is what \<open>retryablehttp.NewClient()\<close> returns: the
  library's client with the library's defaults.
\<close>

definition New :: "retryablehttp_Client \<Rightarrow> Option list \<Rightarrow> client" where
  "New nc options =
     (let client = newClient options;
          client = client\<lparr>retryableHttpClient := Some nc\<rparr>
      in patchRetryableClient client)"

section \<open>Sending a request\<close>

text \<open>
  What lies outside the package, as the client sees it. The first three fields are the
  package's variables \<open>ioReadAll\<close>, \<open>jsonDecode\<close> and \<open>dumpRequestOut\<close>, which the tests
  replace; each returns Go's pair of a value and an error. \<open>jsonDecode\<close> returns the
  decode target as it leaves it. \<open>dumpRequestOut\<close> receives the \<open>*http.Request\<close> that is
  sent afterwards, so it also returns the request as it leaves it. \<open>Do\<close> is the method
  \<open>Do\<close> of the retryable client: \<open>retryableHttpClientWrapper.Do\<close> passes the request to
  the library's client and returns what it returns.
\<close>

record 'v env =
  ioReadAll :: "body \<Rightarrow> string \<times> error option"
  jsonDecode :: "body \<Rightarrow> 'v \<Rightarrow> error option \<times> 'v"
  dumpRequestOut :: "request \<Rightarrow> bool \<Rightarrow> (string \<times> error option) \<times> request"
  Do :: "retryablehttp_Client \<Rightarrow> request \<Rightarrow> response option \<times> error option"

definition record_ops :: "body_op list \<Rightarrow> response \<Rightarrow> response" where
  "record_ops os r = r\<lparr>Body := (Body r)\<lparr>ops := ops (Body r) @ os\<rparr>\<rparr>"

text \<open>
  \<open>handleUnsuccessfulResponse\<close>. It returns the error (nil is \<open>None\<close>) and the response
  as the call leaves it. \<open>http.StatusBadRequest\<close> is 400. The deferred \<open>Close\<close> runs when
  the function returns, after \<open>ioReadAll\<close>, on both branches. An \<open>HttpError\<close> literal that
  names no status code or body has Go's zero values, 0 and the empty string.
\<close>

definition handleUnsuccessfulResponse ::
  "'v env \<Rightarrow> string \<Rightarrow> response option \<Rightarrow> error option \<Rightarrow> error option \<times> response option" where
  "handleUnsuccessfulResponse E url resp receivedError =
     (let rest = (case receivedError of
                    Some e \<Rightarrow> (Some (HttpError url 0 [] (Some e)), resp)
                  | None \<Rightarrow> (None, resp))
      in case resp of
           None \<Rightarrow> rest
         | Some r \<Rightarrow>
             if StatusCode r \<ge> 400 then
               (let (respErr, err) = ioReadAll E (Body r);
                    r' = record_ops [OpReadAll, OpClose] r
                in case err of
                     Some e \<Rightarrow>
                       (Some (HttpError url (StatusCode r) [] (Some (Wrap e ''parsing response''))),
                        Some r')
                   | None \<Rightarrow>
                       (Some (HttpError url (StatusCode r) respErr receivedError), Some r'))
             else rest)"

text \<open>
  \<open>decodeResponse\<close>. It returns the error, the response and the decode target as the
  call leaves them; a nil target is \<open>None\<close>.
\<close>

definition decodeResponse ::
  "'v env \<Rightarrow> string \<Rightarrow> response option \<Rightarrow> 'v option
     \<Rightarrow> error option \<times> response option \<times> 'v option" where
  "decodeResponse E url resp v =
     (case v of
        None \<Rightarrow> (None, resp, v)
      | Some t \<Rightarrow>
          (case resp of
             None \<Rightarrow> (None, resp, v)
           | Some r \<Rightarrow>
               (let (err, t') = jsonDecode E (Body r) t;
                    r' = record_ops [OpDecode, OpClose] r
                in case err of
                     Some e \<Rightarrow>
                       (Some (HttpError url (StatusCode r) [] (Some (Wrap e ''decoding response''))),
                        Some r', Some t')
                   | None \<Rightarrow> (None, Some r', Some t'))))"

text \<open>
  \<open>client.do\<close>. The result is \<open>None\<close> when the call panics (a nil
  \<open>retryableHttpClient\<close>), otherwise the returned response, the returned error and the
  decode target.
\<close>

definition do ::
  "'v env \<Rightarrow> client \<Rightarrow> request \<Rightarrow> 'v option
     \<Rightarrow> (response option \<times> error option \<times> 'v option) option" where
  "do E c req v =
     (case retryableHttpClient c of
        None \<Rightarrow> None
      | Some rhc \<Rightarrow>
          (let (resp, err) = Do E rhc req;
               (err1, resp1) = handleUnsuccessfulResponse E (URL req) resp err
           in case err1 of
                Some e \<Rightarrow> Some (resp1, Some e, v)
              | None \<Rightarrow>
                  (let (err2, resp2, v2) = decodeResponse E (URL req) resp1 v
                   in case err2 of
                        Some e \<Rightarrow> Some (resp2, Some e, v2)
                      | None \<Rightarrow> Some (resp2, None, v2))))"

text \<open>
  \<open>client.logRequestDump\<close>: the list of the diagnostic events it causes (the call of
  \<open>dumpRequestOut\<close> with its flag, and the call of the logger with the dump), and the
  request as the call leaves it.
\<close>

datatype diag_event = DumpRequestOutCalled request bool | LoggerCalled dump_logger string

definition logRequestDump :: "'v env \<Rightarrow> client \<Rightarrow> request \<Rightarrow> diag_event list \<times> request" where
  "logRequestDump E c req =
     (case requestDumpLogger c of
        None \<Rightarrow> ([], req)
      | Some logger \<Rightarrow>
          (let ((dump, err), req') = dumpRequestOut E req (dumpRequestBody c)
           in case err of
                None \<Rightarrow>
                  ([DumpRequestOutCalled req (dumpRequestBody c), LoggerCalled logger dump], req')
              | Some e \<Rightarrow> ([DumpRequestOutCalled req (dumpRequestBody c)], req')))"

text \<open>
  \<open>client.sendRequest\<close>: \<open>logRequestDump\<close> first, then \<open>do\<close> on the same request, as
  \<open>logRequestDump\<close> left it; both of its branches return \<open>resp, err\<close> as \<open>do\<close> gave
  them. The result is the diagnostic events and the result of \<open>do\<close>.
\<close>

definition sendRequest ::
  "'v env \<Rightarrow> client \<Rightarrow> request \<Rightarrow> 'v option
     \<Rightarrow> diag_event list \<times> (response option \<times> error option \<times> 'v option) option" where
  "sendRequest E c req v =
     (let (events, req') = logRequestDump E c req
      in (events, do E c req' v))"

definition SendRequest ::
  "'v env \<Rightarrow> client \<Rightarrow> request
     \<Rightarrow> diag_event list \<times> (response option \<times> error option \<times> 'v option) option" where
  "SendRequest E c req = sendRequest E c req None"

definition SendRequestAndUnmarshallJsonResponse ::
  "'v env \<Rightarrow> client \<Rightarrow> request \<Rightarrow> 'v
     \<Rightarrow> diag_event list \<times> (response option \<times> error option \<times> 'v option) option" where
  "SendRequestAndUnmarshallJsonResponse E c req v = sendRequest E c req (Some v)"

section \<open>Package rps\<close>

text \<open>
  The struct \<open>resumeParsingServiceClient\<close>. Its configuration fields have the names of
  the fields of \<open>client\<close>; the record adds \<open>_rps\<close> to them. \<open>httpClient\<close> is the
  \<open>httpclient.Client\<close> it sends with, nil until the constructor installs one.
\<close>

record resumeParsingServiceClient =
  rioParseToken :: string
  rioParseBaseUrl :: string
  checkRetryPolicy_rps :: "CheckRetry option"
  maxIdleConns_rps :: int
  maxIdleConnsPerHost_rps :: int
  maxConnsPerHost_rps :: int
  maxRetries_rps :: int
  retryWaitMin_rps :: int
  retryWaitMax_rps :: int
  requestDumpLogger_rps :: "dump_logger option"
  dumpRequestBody_rps :: bool
  httpClient :: "client option"

definition new_resumeParsingServiceClient :: resumeParsingServiceClient where
  "new_resumeParsingServiceClient = \<lparr>rioParseToken = [], rioParseBaseUrl = [],
     checkRetryPolicy_rps = None, maxIdleConns_rps = 0, maxIdleConnsPerHost_rps = 0,
     maxConnsPerHost_rps = 0, maxRetries_rps = 0, retryWaitMin_rps = 0, retryWaitMax_rps = 0,
     requestDumpLogger_rps = None, dumpRequestBody_rps = False, httpClient = None\<rparr>"

datatype Option_rps =
    WithMaxIdleConns_rps int
  | WithMaxIdleConnsPerHost_rps int
  | WithMaxConnsPerHost_rps int
  | WithMaxRetries_rps int
  | WithRetryWaitMin_rps int
  | WithRetryWaitMax_rps int
  | WithCheckRetryPolicy_rps "CheckRetry option"
  | WithRequestDumpLogger_rps "dump_logger option" bool

fun applyOption_rps :: "Option_rps \<Rightarrow> resumeParsingServiceClient \<Rightarrow> resumeParsingServiceClient" where
  "applyOption_rps (WithMaxIdleConns_rps n) c = c\<lparr>maxIdleConns_rps := n\<rparr>"
| "applyOption_rps (WithMaxIdleConnsPerHost_rps n) c = c\<lparr>maxIdleConnsPerHost_rps := n\<rparr>"
| "applyOption_rps (WithMaxConnsPerHost_rps n) c = c\<lparr>maxConnsPerHost_rps := n\<rparr>"
| "applyOption_rps (WithMaxRetries_rps n) c = c\<lparr>maxRetries_rps := n\<rparr>"
| "applyOption_rps (WithRetryWaitMin_rps d) c = c\<lparr>retryWaitMin_rps := d\<rparr>"
| "applyOption_rps (WithRetryWaitMax_rps d) c = c\<lparr>retryWaitMax_rps := d\<rparr>"
| "applyOption_rps (WithCheckRetryPolicy_rps p) c = c\<lparr>checkRetryPolicy_rps := p\<rparr>"
| "applyOption_rps (WithRequestDumpLogger_rps l b) c =
     c\<lparr>requestDumpLogger_rps := l, dumpRequestBody_rps := b\<rparr>"

definition newResumeParsingServiceClient :: "Option_rps list \<Rightarrow> resumeParsingServiceClient" where
  "newResumeParsingServiceClient options =
     foldl (\<lambda>c option. applyOption_rps option c) new_resumeParsingServiceClient options"

definition differing_fields_rps ::
  "resumeParsingServiceClient \<Rightarrow> resumeParsingServiceClient \<Rightarrow> field list" where
  "differing_fields_rps c c' =
     (if maxIdleConns_rps c \<noteq> maxIdleConns_rps c' then [F_maxIdleConns] else []) @
     (if maxIdleConnsPerHost_rps c \<noteq> maxIdleConnsPerHost_rps c' then [F_maxIdleConnsPerHost] else []) @
     (if maxConnsPerHost_rps c \<noteq> maxConnsPerHost_rps c' then [F_maxConnsPerHost] else []) @
     (if maxRetries_rps c \<noteq> maxRetries_rps c' then [F_maxRetries] else []) @
     (if checkRetryPolicy_rps c \<noteq> checkRetryPolicy_rps c' then [F_checkRetryPolicy] else []) @
     (if retryWaitMin_rps c \<noteq> retryWaitMin_rps c' then [F_retryWaitMin] else []) @
     (if retryWaitMax_rps c \<noteq> retryWaitMax_rps c' then [F_retryWaitMax] else []) @
     (if requestDumpLogger_rps c \<noteq> requestDumpLogger_rps c' then [F_requestDumpLogger] else []) @
     (if dumpRequestBody_rps c \<noteq> dumpRequestBody_rps c' then [F_dumpRequestBody] else [])"

text \<open>
  \<open>NewResumeParsingServiceClient\<close>, with the package variable \<open>newHttpClient\<close> at its
  initial value \<open>httpclient.New\<close>. The eight options of httpclient are always passed, the
  retry policy too when it is nil.
\<close>

definition NewResumeParsingServiceClient ::
  "retryablehttp_Client \<Rightarrow> string \<Rightarrow> string \<Rightarrow> Option_rps list \<Rightarrow> resumeParsingServiceClient" where
  "NewResumeParsingServiceClient nc token baseUrl options =
     (let client = newResumeParsingServiceClient options;
          client = client\<lparr>rioParseToken := token\<rparr>;
          client = client\<lparr>rioParseBaseUrl := baseUrl\<rparr>;
          h = New nc
                [WithMaxIdleConns (maxIdleConns_rps client),
                 WithMaxIdleConnsPerHost (maxIdleConnsPerHost_rps client),
                 WithMaxConnsPerHost (maxConnsPerHost_rps client),
                 WithMaxRetries (maxRetries_rps client),
                 WithRetryWaitMin (retryWaitMin_rps client),
                 WithRetryWaitMax (retryWaitMax_rps client),
                 WithCheckRetryPolicy (checkRetryPolicy_rps client),
                 WithRequestDumpLogger (requestDumpLogger_rps client) (dumpRequestBody_rps client)]
      in client\<lparr>httpClient := Some h\<rparr>)"

record parseDocumentRequest =
  Base64Data :: string

text \<open>
  What package rps calls outside itself: its variables \<open>jsonMarshal\<close> and
  \<open>newRequestWithContext\<close> (method, URL and body bytes in, request and error out), and
  the zero value of \<open>Resume\<close>, the struct of models.go into which the response is
  decoded; the model leaves that struct abstract.
\<close>

record 'v env_rps =
  jsonMarshal :: "parseDocumentRequest \<Rightarrow> string \<times> error option"
  newRequestWithContext :: "Context \<Rightarrow> string \<Rightarrow> string \<Rightarrow> string \<Rightarrow> request option \<times> error option"
  zeroResume :: 'v

text \<open>
  \<open>base64.StdEncoding.EncodeToString\<close>: the standard alphabet of RFC 4648, three bytes
  to four characters, padded with \<open>=\<close>.
\<close>

definition sextet :: "nat \<Rightarrow> char" where
  "sextet n = ''ABCDEFGHIJKLMNOPQRSTUVWXYZabcdefghijklmnopqrstuvwxyz0123456789+/'' ! n"

fun encode_bytes :: "nat list \<Rightarrow> string" where
  "encode_bytes [] = []"
| "encode_bytes [a] = [sextet (a div 4), sextet (a mod 4 * 16), CHR ''='', CHR ''='']"
| "encode_bytes [a, b] =
     [sextet (a div 4), sextet (a mod 4 * 16 + b div 16), sextet (b mod 16 * 4), CHR ''='']"
| "encode_bytes (a # b # c # rest) =
     [sextet (a div 4), sextet (a mod 4 * 16 + b div 16), sextet (b mod 16 * 4 + c div 64),
      sextet (c mod 64)] @ encode_bytes rest"

definition EncodeToString :: "string \<Rightarrow> string" where
  "EncodeToString src = encode_bytes (map of_char src)"

text \<open>\<open>Header.Set\<close>: the value of the key is replaced, or the key added.\<close>

fun Header_Set :: "string \<Rightarrow> string \<Rightarrow> (string \<times> string) list \<Rightarrow> (string \<times> string) list" where
  "Header_Set k v [] = [(k, v)]"
| "Header_Set k v ((k', v') # h) = (if k' = k then (k, v) # h else (k', v') # Header_Set k v h)"

text \<open>
  \<open>ParseDocument\<close>. The result is \<open>None\<close> when the call panics (a nil request, client or
  response is dereferenced); otherwise the returned resume and error, then the response
  the call received, as the call leaves it, and the diagnostic events. The deferred
  \<open>resp.Body.Close()\<close> is registered once the request has succeeded and runs at the
  return. Header keys are written in the canonical form \<open>Header.Set\<close> gives them.
\<close>

definition ParseDocument ::
  "'v env \<Rightarrow> 'v env_rps \<Rightarrow> resumeParsingServiceClient \<Rightarrow> Context \<Rightarrow> string
     \<Rightarrow> (('v option \<times> error option) \<times> response option \<times> diag_event list) option" where
  "ParseDocument E R r ctx fileContents =
     (let url = rioParseBaseUrl r @ ''/'' @ ''api/parse'';
          encodedFileContents = EncodeToString fileContents;
          pdr = \<lparr>Base64Data = encodedFileContents\<rparr>;
          (j, err) = jsonMarshal R pdr
      in case err of
           Some e \<Rightarrow> Some ((None, Some (Wrap e ''marshalling parse document request'')), None, [])
         | None \<Rightarrow>
             (let (req, err) = newRequestWithContext R ctx ''POST'' url j
              in case err of
                   Some e \<Rightarrow> Some ((None, Some (Wrap e ''creating request'')), None, [])
                 | None \<Rightarrow>
                     (case req of
                        None \<Rightarrow> None
                      | Some req0 \<Rightarrow>
                          (let req1 = req0\<lparr>Header := Header_Set ''Content-Type'' ''application/json'' (Header req0)\<rparr>;
                               req2 = req1\<lparr>Header := Header_Set ''Token'' (rioParseToken r) (Header req1)\<rparr>
                           in case httpClient r of
                                None \<Rightarrow> None
                              | Some h \<Rightarrow>
                                  (case SendRequestAndUnmarshallJsonResponse E h req2 (zeroResume R) of
                                     (events, None) \<Rightarrow> None
                                   | (events, Some (resp, err, resume)) \<Rightarrow>
                                       (case err of
                                          Some e \<Rightarrow>
                                            Some ((None, Some (Wrap e ''performing request'')), resp, events)
                                        | None \<Rightarrow>
                                            (case resp of
                                               None \<Rightarrow> None
                                             | Some rr \<Rightarrow>
                                                 Some ((resume, None), Some (record_ops [OpClose] rr), events))))))))"

section \<open>The collaborators, from the specification\<close>

text \<open>
  Modelled from the spec: the retry loop, \<open>Client.Do\<close> of go-retryablehttp, which is a
  dependency and not among the sources. Section 4.1: perform one attempt; evaluate the
  retry predicate on the context, the response and the transport error; if it answers
  "do not retry", stop at once; if it answers "retry" and attempts remain, repeat; if
  retries are exhausted, the final outcome carries a "giving up after N attempts" error
  that wraps the last underlying error. \<open>max_retries = 0\<close> is exactly one attempt.

  \<open>transport i\<close> is the outcome of attempt number \<open>i\<close> (from 0), \<open>remain\<close> the retries
  left and \<open>i\<close> the attempts already made. The result is the final outcome and the number
  of attempts made. The override error of the retry decision, when there is one, takes
  the place of the transport error. The spec does not say what becomes of the response
  when the loop gives up; the model drops it.
\<close>

fun retry_loop ::
  "CheckRetry \<Rightarrow> (nat \<Rightarrow> response option \<times> error option) \<Rightarrow> request \<Rightarrow> nat \<Rightarrow> nat
     \<Rightarrow> (response option \<times> error option) \<times> nat" where
  "retry_loop check transport req 0 i =
     (let (resp, err) = transport i;
          (retry, override) = check (Ctx req) resp err;
          err' = (case override of Some e \<Rightarrow> Some e | None \<Rightarrow> err)
      in if \<not> retry then ((resp, err'), Suc i)
         else ((None, Some (GivingUp (Method req) (URL req) (Suc i) err')), Suc i))"
| "retry_loop check transport req (Suc remain) i =
     (let (resp, err) = transport i;
          (retry, override) = check (Ctx req) resp err;
          err' = (case override of Some e \<Rightarrow> Some e | None \<Rightarrow> err)
      in if \<not> retry then ((resp, err'), Suc i)
         else retry_loop check transport req remain (Suc i))"

text \<open>
  \<open>execute\<close> is the contract of section 4.1 on a configured retryable client: the
  predicate and the number of retries are the fields \<open>patchRetryableClient\<close> assigned.
  A negative \<open>RetryMax\<close> leaves no retry.
\<close>

definition execute ::
  "(request \<Rightarrow> nat \<Rightarrow> response option \<times> error option) \<Rightarrow> retryablehttp_Client \<Rightarrow> request
     \<Rightarrow> (response option \<times> error option) \<times> nat" where
  "execute transport rhc req =
     retry_loop (CheckRetry rhc) (transport req) req (nat (RetryMax rhc)) 0"

text \<open>
  Modelled from the spec: \<open>io.ReadAll\<close> of Go's standard library, the initial value of
  \<open>ioReadAll\<close>: the body is fully read, or the read failure is returned.
\<close>

definition io_ReadAll :: "body \<Rightarrow> string \<times> error option" where
  "io_ReadAll b = (case readErr b of None \<Rightarrow> (content b, None) | Some e \<Rightarrow> ([], Some e))"

definition CRLF :: string where
  "CRLF = [CHR 0x0D, CHR 0x0A]"

text \<open>
  Modelled from the spec: \<open>httputil.DumpRequestOut\<close> of Go's standard library, the
  initial value of \<open>dumpRequestOut\<close>. Section 4.2, step 3: the outgoing request is
  serialized to wire format, headers always, body only if \<open>dump_body\<close> is enabled. The
  head is the request line and one line per header, ended by an empty line. The request
  is left as it was.
\<close>

definition wire_head :: "request \<Rightarrow> string" where
  "wire_head req =
     Method req @ '' '' @ URL req @ '' HTTP/1.1'' @ CRLF @
     concat (map (\<lambda>(k, v). k @ '': '' @ v @ CRLF) (Header req)) @ CRLF"

definition DumpRequestOut :: "request \<Rightarrow> bool \<Rightarrow> (string \<times> error option) \<times> request" where
  "DumpRequestOut req body = ((wire_head req @ (if body then Body_req req else []), None), req)"

text \<open>
  The environment of a client in production: the package variables at their initial
  values, and the retry loop over a transport. \<open>jd\<close> is \<open>json.NewDecoder(r).Decode\<close>.
\<close>

definition production :: "(body \<Rightarrow> 'v \<Rightarrow> error option \<times> 'v)
     \<Rightarrow> (request \<Rightarrow> nat \<Rightarrow> response option \<times> error option) \<Rightarrow> 'v env" where
  "production jd transport =
     \<lparr>ioReadAll = io_ReadAll, jsonDecode = jd, dumpRequestOut = DumpRequestOut,
      Do = (\<lambda>rhc req. fst (execute transport rhc req))\<rparr>"

text \<open>Decimal digits of a natural number, and \<open>strconv.Itoa\<close>.\<close>

definition digit :: "nat \<Rightarrow> char" where
  "digit d = ''0123456789'' ! d"

fun digits :: "nat \<Rightarrow> string" where
  "digits n = (if n < 10 then [digit n] else digits (n div 10) @ [digit (n mod 10)])"

definition Itoa :: "int \<Rightarrow> string" where
  "Itoa i = (if i < 0 then ''-'' @ digits (nat (- i)) else digits (nat i))"

text \<open>
  Modelled from the spec: the method \<open>Error\<close> of \<open>HttpError\<close>, whose file is not among
  the sources. Section 4.2: the rendering is
  \<open>request to <url> failed. httpStatus: [ <code|"no status"> ] responseBody: [ <body> ] error: [ <cause|"<nil>"> ]\<close>;
  the status is absent when it is Go's zero value. The other errors render as the tests
  of the package expect them: \<open>errors.Wrap(err, msg)\<close> as \<open>msg: err\<close>, and the error of
  the retry library as \<open>METHOD URL giving up after N attempt(s): err\<close>.
\<close>

fun Error :: "error \<Rightarrow> string" where
  "Error (ErrorsNew msg) = msg"
| "Error (Wrap e msg) = msg @ '': '' @ Error e"
| "Error (HttpError url code body None) =
     ''request to '' @ url @ '' failed. httpStatus: [ '' @
     (if code = 0 then ''no status'' else Itoa code) @
     '' ] responseBody: [ '' @ body @ '' ] error: [ <nil> ]''"
| "Error (HttpError url code body (Some e)) =
     ''request to '' @ url @ '' failed. httpStatus: [ '' @
     (if code = 0 then ''no status'' else Itoa code) @
     '' ] responseBody: [ '' @ body @ '' ] error: [ '' @ Error e @ '' ]''"
| "Error (GivingUp method url n None) =
     method @ '' '' @ url @ '' giving up after '' @ digits n @ '' attempt(s)''"
| "Error (GivingUp method url n (Some e)) =
     method @ '' '' @ url @ '' giving up after '' @ digits n @ '' attempt(s): '' @ Error e"

section \<open>Observations and scenarios\<close>

text \<open>The dumps handed to the logger, in order.\<close>

fun logged :: "diag_event list \<Rightarrow> string list" where
  "logged [] = []"
| "logged (LoggerCalled l dump # evs) = dump # logged evs"
| "logged (DumpRequestOutCalled req b # evs) = logged evs"

text \<open>How often a body has been closed.\<close>

definition closes :: "response \<Rightarrow> nat" where
  "closes r = length (filter (\<lambda>op. op = OpClose) (ops (Body r)))"

text \<open>
  A library client as \<open>retryablehttp.NewClient()\<close> makes it: four retries, waits of one to
  thirty seconds, and a policy that retries on a transport error and on a status of 500
  and above.
\<close>

definition NewClient :: retryablehttp_Client where
  "NewClient = \<lparr>RetryMax = 4, RetryWaitMin = 1000000000, RetryWaitMax = 30000000000,
     CheckRetry = (\<lambda>ctx resp err.
        (case err of
           Some e \<Rightarrow> (True, None)
         | None \<Rightarrow> (case resp of None \<Rightarrow> (False, None) | Some r \<Rightarrow> (StatusCode r \<ge> 500, None))))\<rparr>"

text \<open>A fresh body holding the given bytes, and a server that answers every attempt alike.\<close>

definition fresh_body :: "string \<Rightarrow> body" where
  "fresh_body bytes = \<lparr>content = bytes, readErr = None, ops = []\<rparr>"

definition server :: "int \<Rightarrow> string \<Rightarrow> request \<Rightarrow> nat \<Rightarrow> response option \<times> error option" where
  "server status bytes req i = (Some \<lparr>StatusCode = status, Body = fresh_body bytes\<rparr>, None)"

text \<open>
  The scenario of \<open>TestParseDocument\<close>, "happy path": marshalling gives no bytes and no
  error, the request is new with an empty header. The decoder of the scenario accepts
  every body and stores its bytes in the target.
\<close>

definition happy_rps :: "string env_rps" where
  "happy_rps = \<lparr>jsonMarshal = (\<lambda>v. ([], None)),
     newRequestWithContext = (\<lambda>ctx method url body.
        (Some \<lparr>Ctx = ctx, Method = method, URL = url, Header = [], ContentLength = int (length body),
               Body_req = body\<rparr>, None)),
     zeroResume = []\<rparr>"

definition accept_all :: "body \<Rightarrow> string \<Rightarrow> error option \<times> string" where
  "accept_all b target = (None, content b)"

text \<open>
  \<open>retryIfInternalServerError\<close>, the custom policy of example/with-options: retry on a
  response with status 500, and pass the error on.
\<close>

definition retryIfInternalServerError :: CheckRetry where
  "retryIfInternalServerError ctx resp err =
     (case resp of
        Some r \<Rightarrow> if StatusCode r = 500 then (True, err) else (False, err)
      | None \<Rightarrow> (False, err))"

text \<open>A server that answers 500 to the first \<open>n\<close> attempts and 200 from then on.\<close>

definition recovering :: "nat \<Rightarrow> request \<Rightarrow> nat \<Rightarrow> response option \<times> error option" where
  "recovering n req i =
     (if i < n then (Some \<lparr>StatusCode = 500, Body = fresh_body []\<rparr>, None)
      else (Some \<lparr>StatusCode = 200, Body = fresh_body []\<rparr>, None))"

text \<open>The request of the tests: \<open>GET\<close> of a URL, no body, \<open>context.TODO()\<close>.\<close>

definition get_request :: "string \<Rightarrow> request" where
  "get_request url = \<lparr>Ctx = TODO, Method = ''GET'', URL = url, Header = [], ContentLength = 0,
     Body_req = []\<rparr>"

text \<open>
  The environment of the package's tests: \<open>retryableHttpClientMock.Do\<close> returns the
  response and the error it was given, whatever the request. \<open>reject_all\<close> and
  \<open>failing_dump\<close> are the mocks of \<open>jsonDecode\<close> and \<open>dumpRequestOut\<close> that return
  \<open>errors.New("random error")\<close>; the mock of \<open>dumpRequestOut\<close> does not touch the request.
\<close>

definition mock ::
  "(body \<Rightarrow> 'v \<Rightarrow> error option \<times> 'v) \<Rightarrow> response option \<Rightarrow> error option \<Rightarrow> 'v env" where
  "mock jd resp err =
     \<lparr>ioReadAll = io_ReadAll, jsonDecode = jd, dumpRequestOut = DumpRequestOut,
      Do = (\<lambda>rhc req. (resp, err))\<rparr>"


definition failing_dump :: "request \<Rightarrow> bool \<Rightarrow> (string \<times> error option) \<times> request" where
  "failing_dump req body = (([], Some (ErrorsNew ''random error'')), req)"

text \<open>
  A serializer that fails after it has read the body of the request: the body is
  consumed when the request is sent. And a service that answers 400 to a request with
  no body and 200, with the body it received, to any other.
\<close>

definition draining_dump :: "request \<Rightarrow> bool \<Rightarrow> (string \<times> error option) \<times> request" where
  "draining_dump req body = (([], Some (ErrorsNew ''unexpected EOF'')), req\<lparr>Body_req := []\<rparr>)"

definition needs_body :: "request \<Rightarrow> nat \<Rightarrow> response option \<times> error option" where
  "needs_body req i =
     (if Body_req req = [] then (Some \<lparr>StatusCode = 400, Body = fresh_body []\<rparr>, None)
      else (Some \<lparr>StatusCode = 200, Body = fresh_body (Body_req req)\<rparr>, None))"

section \<open>Lemmas on construction and on the retry loop\<close>

lemma applyOption_keeps_policy:
  "(\<forall>p. opt \<noteq> WithCheckRetryPolicy p) \<Longrightarrow> checkRetryPolicy (applyOption opt c) = checkRetryPolicy c"
  by (cases opt) simp_all

lemma foldl_keeps_policy:
  "(\<forall>opt \<in> set options. \<forall>p. opt \<noteq> WithCheckRetryPolicy p) \<Longrightarrow>
   checkRetryPolicy (foldl (\<lambda>c option. applyOption option c) c options) = checkRetryPolicy c"
  by (induction options arbitrary: c) (simp_all add: applyOption_keeps_policy)

lemma newClient_no_policy:
  "(\<forall>opt \<in> set options. \<forall>p. opt \<noteq> WithCheckRetryPolicy p) \<Longrightarrow>
   checkRetryPolicy (newClient options) = None"
  by (simp add: newClient_def foldl_keeps_policy new_client_def)

lemma newClient_last_policy:
  "(\<forall>opt \<in> set post. \<forall>q. opt \<noteq> WithCheckRetryPolicy q) \<Longrightarrow>
   checkRetryPolicy (newClient (pre @ WithCheckRetryPolicy p # post)) = p"
  by (simp add: newClient_def foldl_keeps_policy)

lemma New_rhc:
  "retryableHttpClient (New nc options) =
     Some \<lparr>RetryMax = maxRetries (newClient options),
           RetryWaitMin = retryWaitMin (newClient options),
           RetryWaitMax = retryWaitMax (newClient options),
           CheckRetry = (case checkRetryPolicy (newClient options) of
                           Some p \<Rightarrow> p | None \<Rightarrow> doNotRetryPolicy)\<rparr>"
  by (cases nc) (simp add: New_def patchRetryableClient_def Let_def SetRetryMax_def
      SetRetryWaitMin_def SetRetryWaitMax_def SetCheckRetry_def split: option.splits)

lemma New_config:
  "maxRetries (New nc options) = maxRetries (newClient options)
   \<and> requestDumpLogger (New nc options) = requestDumpLogger (newClient options)
   \<and> dumpRequestBody (New nc options) = dumpRequestBody (newClient options)"
  by (simp add: New_def patchRetryableClient_def Let_def)

lemma retry_loop_stop:
  "\<not> fst (check (Ctx req) (fst (transport i)) (snd (transport i))) \<Longrightarrow>
   retry_loop check transport req remain i =
     ((fst (transport i),
       case snd (check (Ctx req) (fst (transport i)) (snd (transport i))) of
         Some e \<Rightarrow> Some e | None \<Rightarrow> snd (transport i)), Suc i)"
  by (cases remain; cases "transport i";
      cases "check (Ctx req) (fst (transport i)) (snd (transport i))")
    (auto simp: Let_def split: option.splits)

lemma retry_loop_stop_attempts:
  "\<not> fst (check (Ctx req) (fst (transport i)) (snd (transport i))) \<Longrightarrow>
   snd (retry_loop check transport req remain i) = Suc i"
  by (simp add: retry_loop_stop)

lemma retry_loop_attempts:
  "k \<le> remain \<Longrightarrow>
   (\<forall>j<k. fst (check (Ctx req) (fst (transport (i + j))) (snd (transport (i + j))))) \<Longrightarrow>
   \<not> fst (check (Ctx req) (fst (transport (i + k))) (snd (transport (i + k)))) \<Longrightarrow>
   snd (retry_loop check transport req remain i) = Suc (i + k)"
proof (induction remain arbitrary: i k)
  case 0
  then show ?case by (simp add: retry_loop_stop_attempts del: retry_loop.simps)
next
  case (Suc remain)
  show ?case
  proof (cases k)
    case 0
    with Suc.prems show ?thesis by (simp add: retry_loop_stop_attempts del: retry_loop.simps)
  next
    case (Suc k')
    have first: "fst (check (Ctx req) (fst (transport i)) (snd (transport i)))"
      using Suc.prems(2) Suc by (metis add.right_neutral zero_less_Suc)
    have rest: "\<forall>j<k'. fst (check (Ctx req) (fst (transport (Suc i + j))) (snd (transport (Suc i + j))))"
      using Suc.prems(2) Suc by (metis Suc_less_eq add_Suc add_Suc_right)
    have stop: "\<not> fst (check (Ctx req) (fst (transport (Suc i + k'))) (snd (transport (Suc i + k'))))"
      using Suc.prems(3) Suc by simp
    have "k' \<le> remain" using Suc.prems(1) Suc by simp
    from Suc.IH[OF this rest stop] first show ?thesis
      using Suc by (cases "transport i"; cases "check (Ctx req) (fst (transport i)) (snd (transport i))")
        (auto simp: Let_def)
  qed
qed

lemma retry_loop_zero:
  "snd (retry_loop check transport req 0 i) = Suc i"
  by (cases "transport i"; cases "check (Ctx req) (fst (transport i)) (snd (transport i))")
    (auto simp: Let_def)

lemma New_defaults:
  "New nc [] = new_client\<lparr>retryableHttpClient :=
      Some \<lparr>RetryMax = 0, RetryWaitMin = 0, RetryWaitMax = 0, CheckRetry = doNotRetryPolicy\<rparr>\<rparr>"
  by (cases nc) (simp add: New_def newClient_def new_client_def patchRetryableClient_def Let_def
      SetRetryMax_def SetRetryWaitMin_def SetRetryWaitMax_def SetCheckRetry_def)

lemma New_rps_default:
  "httpClient (NewResumeParsingServiceClient nc token baseUrl []) =
     Some (new_client\<lparr>retryableHttpClient :=
       Some \<lparr>RetryMax = 0, RetryWaitMin = 0, RetryWaitMax = 0, CheckRetry = doNotRetryPolicy\<rparr>\<rparr>)"
  by (cases nc) (simp add: NewResumeParsingServiceClient_def newResumeParsingServiceClient_def
      new_resumeParsingServiceClient_def New_def newClient_def new_client_def
      patchRetryableClient_def Let_def
      SetRetryMax_def SetRetryWaitMin_def SetRetryWaitMax_def SetCheckRetry_def)

lemma wire_head_body: "wire_head (req\<lparr>Body_req := b\<rparr>) = wire_head req"
  by (simp add: wire_head_def)

section \<open>The default retry policy\<close>

text \<open>
  C1. A client built from options with no \<open>WithCheckRetryPolicy\<close> among them has
  \<open>doNotRetryPolicy\<close> installed on its retryable client; that policy answers
  \<open>(false, nil)\<close> to every context, response and error; and so the executor makes exactly
  one attempt and returns that attempt's outcome, whatever its status or transport
  error. When a policy is supplied (the last \<open>WithCheckRetryPolicy\<close> among the options
  carries a policy), that policy is the one installed.
\<close>

theorem C1_default_policy:
  "((\<forall>opt \<in> set options. \<forall>p. opt \<noteq> WithCheckRetryPolicy p) \<longrightarrow>
      (\<exists>r. retryableHttpClient (New nc options) = Some r
           \<and> CheckRetry r = doNotRetryPolicy
           \<and> (\<forall>ctx resp err. CheckRetry r ctx resp err = (False, None))
           \<and> (\<forall>transport req. execute transport r req = (transport req 0, 1))))
   \<and> ((\<forall>opt \<in> set post. \<forall>q. opt \<noteq> WithCheckRetryPolicy q) \<longrightarrow>
      (\<exists>r. retryableHttpClient (New nc (pre @ WithCheckRetryPolicy (Some p) # post)) = Some r
           \<and> CheckRetry r = p))"
proof (intro conjI impI)
  assume none: "\<forall>opt \<in> set options. \<forall>p. opt \<noteq> WithCheckRetryPolicy p"
  let ?r = "\<lparr>RetryMax = maxRetries (newClient options),
           RetryWaitMin = retryWaitMin (newClient options),
           RetryWaitMax = retryWaitMax (newClient options),
           CheckRetry = doNotRetryPolicy\<rparr>"
  have r: "retryableHttpClient (New nc options) = Some ?r"
    by (simp add: New_rhc newClient_no_policy[OF none])
  have stop: "execute transport ?r req = (transport req 0, 1)" for transport req
    by (cases "transport req 0")
      (simp add: execute_def retry_loop_stop doNotRetryPolicy_def del: retry_loop.simps)
  show "\<exists>r. retryableHttpClient (New nc options) = Some r
           \<and> CheckRetry r = doNotRetryPolicy
           \<and> (\<forall>ctx resp err. CheckRetry r ctx resp err = (False, None))
           \<and> (\<forall>transport req. execute transport r req = (transport req 0, 1))"
    using r stop by (simp add: doNotRetryPolicy_def)
next
  assume "\<forall>opt \<in> set post. \<forall>q. opt \<noteq> WithCheckRetryPolicy q"
  then show "\<exists>r. retryableHttpClient (New nc (pre @ WithCheckRetryPolicy (Some p) # post)) = Some r
           \<and> CheckRetry r = p"
    by (simp add: New_rhc newClient_last_policy)
qed

theorem C1_default_policy_witness:
  "(\<exists>r. retryableHttpClient (New NewClient [WithMaxRetries 3]) = Some r
           \<and> CheckRetry r = doNotRetryPolicy
           \<and> execute (server 502 []) r \<lparr>Ctx = TODO, Method = ''GET'', URL = ''http://localhost'',
                 Header = [], ContentLength = 0, Body_req = []\<rparr>
               = ((Some \<lparr>StatusCode = 502, Body = fresh_body []\<rparr>, None), 1))
   \<and> (\<exists>r. retryableHttpClient
             (New NewClient ([] @ WithCheckRetryPolicy (Some (\<lambda>ctx resp err. (True, err))) # [WithMaxRetries 2]))
             = Some r
           \<and> CheckRetry r = (\<lambda>ctx resp err. (True, err)))"
  using C1_default_policy[of "[WithMaxRetries 3]" NewClient "[WithMaxRetries 2]" "[]"
      "\<lambda>ctx resp err. (True, err)"]
  by (auto simp: server_def)

section \<open>Classification of the final outcome\<close>

text \<open>
  C2. For a response with status code 400 or above, \<open>handleUnsuccessfulResponse\<close>
  returns an \<open>HttpError\<close> with that status code. When \<open>ioReadAll\<close> succeeds, the body
  of the error is exactly the bytes read and its cause is the error received (nil or
  not). When \<open>ioReadAll\<close> fails, the body is empty and the cause is the read failure
  wrapped with "parsing response", not the error received. In both cases the response
  body has been read and then closed.
\<close>

theorem C2_error_body:
  "400 \<le> StatusCode r \<longrightarrow>
     (\<forall>bytes. ioReadAll E (Body r) = (bytes, None) \<longrightarrow>
        handleUnsuccessfulResponse E url (Some r) receivedError =
          (Some (HttpError url (StatusCode r) bytes receivedError),
           Some (record_ops [OpReadAll, OpClose] r)))
   \<and> (\<forall>bytes e. ioReadAll E (Body r) = (bytes, Some e) \<longrightarrow>
        handleUnsuccessfulResponse E url (Some r) receivedError =
          (Some (HttpError url (StatusCode r) [] (Some (Wrap e ''parsing response''))),
           Some (record_ops [OpReadAll, OpClose] r)))"
  by (simp add: handleUnsuccessfulResponse_def)

theorem C2_error_body_witness:
  "(400::int) \<le> 500
   \<and> handleUnsuccessfulResponse (mock accept_all None None) ''http://localhost/some/path''
        (Some \<lparr>StatusCode = 500, Body = fresh_body ''some random error''\<rparr>) None
      = (Some (HttpError ''http://localhost/some/path'' 500 ''some random error'' None),
         Some \<lparr>StatusCode = 500,
               Body = \<lparr>content = ''some random error'', readErr = None, ops = [OpReadAll, OpClose]\<rparr>\<rparr>)
   \<and> handleUnsuccessfulResponse (mock accept_all None None) ''http://localhost/some/path''
        (Some \<lparr>StatusCode = 500,
               Body = \<lparr>content = ''some random error'', readErr = Some (ErrorsNew ''random error''),
                       ops = []\<rparr>\<rparr>)
        (Some (ErrorsNew ''EOF''))
      = (Some (HttpError ''http://localhost/some/path'' 500 []
                 (Some (Wrap (ErrorsNew ''random error'') ''parsing response''))),
         Some \<lparr>StatusCode = 500,
               Body = \<lparr>content = ''some random error'', readErr = Some (ErrorsNew ''random error''),
                       ops = [OpReadAll, OpClose]\<rparr>\<rparr>)"
  using C2_error_body[of "\<lparr>StatusCode = 500, Body = fresh_body ''some random error''\<rparr>"
      "mock accept_all None None" "''http://localhost/some/path''" None]
    C2_error_body[of "\<lparr>StatusCode = 500,
               Body = \<lparr>content = ''some random error'', readErr = Some (ErrorsNew ''random error''),
                       ops = []\<rparr>\<rparr>"
      "mock accept_all None None" "''http://localhost/some/path''" "Some (ErrorsNew ''EOF'')"]
  by (simp add: mock_def io_ReadAll_def fresh_body_def record_ops_def)



text \<open>
  C10. When \<open>Do\<close> returns both a response with status below 400 and an error,
  \<open>handleUnsuccessfulResponse\<close> returns an \<open>HttpError\<close> with that error as cause, the
  absent status code 0 and an empty body, and \<open>do\<close> returns it with the response
  untouched: no operation has been recorded on its body, which is neither read nor
  closed, and the decode target is as it was.
\<close>

theorem C10_response_and_error:
  "retryableHttpClient c = Some rhc \<and> Do E rhc req = (Some r, Some e) \<and> StatusCode r < 400 \<longrightarrow>
     handleUnsuccessfulResponse E (URL req) (Some r) (Some e) =
       (Some (HttpError (URL req) 0 [] (Some e)), Some r)
   \<and> do E c req v = Some (Some r, Some (HttpError (URL req) 0 [] (Some e)), v)"
  by (simp add: do_def handleUnsuccessfulResponse_def)

theorem C10_response_and_error_witness:
  "retryableHttpClient (New NewClient []) =
     Some \<lparr>RetryMax = 0, RetryWaitMin = 0, RetryWaitMax = 0, CheckRetry = doNotRetryPolicy\<rparr>
   \<and> do (mock accept_all (Some \<lparr>StatusCode = 200, Body = fresh_body ''value''\<rparr>)
             (Some (ErrorsNew ''random error'')))
        (New NewClient []) (get_request ''http://localhost/some/path'') (Some [])
      = Some (Some \<lparr>StatusCode = 200, Body = \<lparr>content = ''value'', readErr = None, ops = []\<rparr>\<rparr>,
              Some (HttpError ''http://localhost/some/path'' 0 [] (Some (ErrorsNew ''random error''))),
              Some [])"
  using C10_response_and_error[of "New NewClient []"
      "\<lparr>RetryMax = 0, RetryWaitMin = 0, RetryWaitMax = 0, CheckRetry = doNotRetryPolicy\<rparr>"
      "mock accept_all (Some \<lparr>StatusCode = 200, Body = fresh_body ''value''\<rparr>)
             (Some (ErrorsNew ''random error''))"
      "get_request ''http://localhost/some/path''"
      "\<lparr>StatusCode = 200, Body = fresh_body ''value''\<rparr>" "ErrorsNew ''random error''" "Some []"]
  by (simp add: New_defaults mock_def fresh_body_def get_request_def)

section \<open>The retry loop\<close>

text \<open>
  C4. With a custom retry policy \<open>p\<close> configured, the retryable client carries \<open>p\<close>
  and the configured number of retries; if \<open>p\<close> answers "retry" after each of the first
  \<open>N - 1\<close> attempts and "do not retry" after attempt \<open>N\<close>, with
  \<open>N \<le> max_retries + 1\<close>, the executor makes exactly \<open>N\<close> attempts. With
  \<open>max_retries = 0\<close> it makes exactly one attempt, and a "do not retry" after the first
  attempt ends the loop there with that attempt's response, whatever its status code.
\<close>

theorem C4_attempts:
  "checkRetryPolicy (newClient options) = Some p \<longrightarrow>
   (\<exists>r. retryableHttpClient (New nc options) = Some r
        \<and> RetryMax r = maxRetries (newClient options)
        \<and> CheckRetry r = p
        \<and> (\<forall>transport req N.
              1 \<le> N \<and> int N \<le> maxRetries (newClient options) + 1
              \<and> (\<forall>i<N - 1. fst (p (Ctx req) (fst (transport req i)) (snd (transport req i))))
              \<and> \<not> fst (p (Ctx req) (fst (transport req (N - 1))) (snd (transport req (N - 1))))
              \<longrightarrow> snd (execute transport r req) = N)
        \<and> (\<forall>transport req.
              maxRetries (newClient options) = 0 \<longrightarrow> snd (execute transport r req) = 1)
        \<and> (\<forall>transport req.
              \<not> fst (p (Ctx req) (fst (transport req 0)) (snd (transport req 0)))
              \<longrightarrow> snd (execute transport r req) = 1
                  \<and> fst (fst (execute transport r req)) = fst (transport req 0)))"
proof
  assume pol: "checkRetryPolicy (newClient options) = Some p"
  let ?m = "maxRetries (newClient options)"
  let ?r = "\<lparr>RetryMax = ?m,
           RetryWaitMin = retryWaitMin (newClient options),
           RetryWaitMax = retryWaitMax (newClient options),
           CheckRetry = p\<rparr>"
  have r: "retryableHttpClient (New nc options) = Some ?r"
    by (simp add: New_rhc pol)
  have many: "snd (execute transport ?r req) = N"
    if "1 \<le> N" "int N \<le> ?m + 1"
      "\<forall>i<N - 1. fst (p (Ctx req) (fst (transport req i)) (snd (transport req i)))"
      "\<not> fst (p (Ctx req) (fst (transport req (N - 1))) (snd (transport req (N - 1))))"
    for transport req N
  proof -
    from that(1,2) have le: "N - 1 \<le> nat ?m" by linarith
    have "snd (retry_loop p (transport req) req (nat ?m) 0) = Suc (0 + (N - 1))"
      by (rule retry_loop_attempts[OF le]) (use that(3,4) in simp_all)
    with that(1) show ?thesis by (simp add: execute_def)
  qed
  have zero: "snd (execute transport ?r req) = 1" if "?m = 0" for transport req
    using that by (simp add: execute_def retry_loop_zero del: retry_loop.simps)
  have stop: "snd (execute transport ?r req) = 1
      \<and> fst (fst (execute transport ?r req)) = fst (transport req 0)"
    if "\<not> fst (p (Ctx req) (fst (transport req 0)) (snd (transport req 0)))" for transport req
    using that by (simp add: execute_def retry_loop_stop del: retry_loop.simps)
  show "\<exists>r. retryableHttpClient (New nc options) = Some r
        \<and> RetryMax r = maxRetries (newClient options)
        \<and> CheckRetry r = p
        \<and> (\<forall>transport req N.
              1 \<le> N \<and> int N \<le> maxRetries (newClient options) + 1
              \<and> (\<forall>i<N - 1. fst (p (Ctx req) (fst (transport req i)) (snd (transport req i))))
              \<and> \<not> fst (p (Ctx req) (fst (transport req (N - 1))) (snd (transport req (N - 1))))
              \<longrightarrow> snd (execute transport r req) = N)
        \<and> (\<forall>transport req.
              maxRetries (newClient options) = 0 \<longrightarrow> snd (execute transport r req) = 1)
        \<and> (\<forall>transport req.
              \<not> fst (p (Ctx req) (fst (transport req 0)) (snd (transport req 0)))
              \<longrightarrow> snd (execute transport r req) = 1
                  \<and> fst (fst (execute transport r req)) = fst (transport req 0))"
    using r many zero stop by (intro exI[of _ ?r]) simp
qed

theorem C4_attempts_witness:
  "checkRetryPolicy (newClient [WithMaxRetries 2, WithCheckRetryPolicy (Some retryIfInternalServerError)])
     = Some retryIfInternalServerError
   \<and> (\<exists>r. retryableHttpClient
             (New NewClient [WithMaxRetries 2, WithCheckRetryPolicy (Some retryIfInternalServerError)])
             = Some r
          \<and> snd (execute (recovering 2) r (get_request ''http://localhost'')) = 3
          \<and> snd (execute (recovering 0) r (get_request ''http://localhost'')) = 1)"
proof -
  let ?opts = "[WithMaxRetries 2, WithCheckRetryPolicy (Some retryIfInternalServerError)]"
  let ?req = "get_request ''http://localhost''"
  have pol: "checkRetryPolicy (newClient ?opts) = Some retryIfInternalServerError"
    and m: "maxRetries (newClient ?opts) = 2"
    by (simp_all add: newClient_def new_client_def)
  from C4_attempts[of ?opts retryIfInternalServerError NewClient] pol m
  obtain r where r: "retryableHttpClient (New NewClient ?opts) = Some r"
    and many: "\<And>transport req N. 1 \<le> N \<and> int N \<le> 2 + 1
              \<and> (\<forall>i<N - 1. fst (retryIfInternalServerError (Ctx req) (fst (transport req i)) (snd (transport req i))))
              \<and> \<not> fst (retryIfInternalServerError (Ctx req) (fst (transport req (N - 1))) (snd (transport req (N - 1))))
              \<Longrightarrow> snd (execute transport r req) = N"
    and stop: "\<And>transport req.
              \<not> fst (retryIfInternalServerError (Ctx req) (fst (transport req 0)) (snd (transport req 0)))
              \<Longrightarrow> snd (execute transport r req) = 1"
    by auto
  have three: "snd (execute (recovering 2) r ?req) = 3"
    by (rule many) (simp add: recovering_def retryIfInternalServerError_def)
  have one: "snd (execute (recovering 0) r ?req) = 1"
    by (rule stop) (simp add: recovering_def retryIfInternalServerError_def)
  from pol r three one show ?thesis by simp
qed

text \<open>
  C5. With a server that answers every attempt with status 502 and an empty body, and
  a client built with no options, \<open>SendRequest\<close> returns an error, the \<open>HttpError\<close> with
  status 502, an empty body and no cause, which renders exactly as
  \<open>request to <url> failed. httpStatus: [ 502 ] responseBody: [  ] error: [ <nil> ]\<close>.
\<close>

theorem C5_bad_gateway:
  "SendRequest (production jd (server 502 [])) (New nc []) req =
     ([], Some (Some (record_ops [OpReadAll, OpClose] \<lparr>StatusCode = 502, Body = fresh_body []\<rparr>),
                Some (HttpError (URL req) 502 [] None), None))
   \<and> Error (HttpError (URL req) 502 [] None) =
       ''request to '' @ URL req @ '' failed. httpStatus: [ 502 ] responseBody: [  ] error: [ <nil> ]''"
proof
  have ex: "execute (server 502 []) \<lparr>RetryMax = 0, RetryWaitMin = 0, RetryWaitMax = 0,
      CheckRetry = doNotRetryPolicy\<rparr> req
      = ((Some \<lparr>StatusCode = 502, Body = fresh_body []\<rparr>, None), 1)"
    by (simp add: execute_def server_def doNotRetryPolicy_def)
  show "SendRequest (production jd (server 502 [])) (New nc []) req =
     ([], Some (Some (record_ops [OpReadAll, OpClose] \<lparr>StatusCode = 502, Body = fresh_body []\<rparr>),
                Some (HttpError (URL req) 502 [] None), None))"
    by (simp add: SendRequest_def sendRequest_def logRequestDump_def do_def New_defaults
        new_client_def production_def ex handleUnsuccessfulResponse_def io_ReadAll_def
        fresh_body_def)
  show "Error (HttpError (URL req) 502 [] None) =
       ''request to '' @ URL req @ '' failed. httpStatus: [ 502 ] responseBody: [  ] error: [ <nil> ]''"
    by (simp add: Itoa_def digit_def)
qed

section \<open>Closing the response body\<close>

text \<open>
  C6. On the success path of \<open>ParseDocument\<close> the response body is closed twice, not
  once: \<open>decodeResponse\<close> closes it after decoding, and the deferred
  \<open>resp.Body.Close()\<close> of \<open>ParseDocument\<close> closes it again. Here the service answers 200
  to a client built with no options.
\<close>

theorem C6_closed_twice:
  "ParseDocument (production accept_all (server 200 ''{}'')) happy_rps
     (NewResumeParsingServiceClient NewClient ''TOKEN'' ''http://localhost'' []) TODO []
   = Some ((Some ''{}'', None),
           Some \<lparr>StatusCode = 200,
                 Body = \<lparr>content = ''{}'', readErr = None, ops = [OpDecode, OpClose, OpClose]\<rparr>\<rparr>,
           [])
   \<and> closes \<lparr>StatusCode = 200,
               Body = \<lparr>content = ''{}'', readErr = None, ops = [OpDecode, OpClose, OpClose]\<rparr>\<rparr> = 2"
proof
  have ex: "execute (server 200 ''{}'') \<lparr>RetryMax = 0, RetryWaitMin = 0, RetryWaitMax = 0,
      CheckRetry = doNotRetryPolicy\<rparr> req
      = ((Some \<lparr>StatusCode = 200, Body = fresh_body ''{}''\<rparr>, None), 1)" for req
    by (simp add: execute_def server_def doNotRetryPolicy_def)
  have rps: "rioParseBaseUrl (NewResumeParsingServiceClient NewClient ''TOKEN'' ''http://localhost'' [])
      = ''http://localhost''
    \<and> rioParseToken (NewResumeParsingServiceClient NewClient ''TOKEN'' ''http://localhost'' [])
      = ''TOKEN''"
    by (simp add: NewResumeParsingServiceClient_def Let_def)
  show "ParseDocument (production accept_all (server 200 ''{}'')) happy_rps
     (NewResumeParsingServiceClient NewClient ''TOKEN'' ''http://localhost'' []) TODO []
   = Some ((Some ''{}'', None),
           Some \<lparr>StatusCode = 200,
                 Body = \<lparr>content = ''{}'', readErr = None, ops = [OpDecode, OpClose, OpClose]\<rparr>\<rparr>,
           [])"
    by (simp add: ParseDocument_def happy_rps_def New_rps_default rps
        SendRequestAndUnmarshallJsonResponse_def sendRequest_def logRequestDump_def do_def
        new_client_def production_def ex handleUnsuccessfulResponse_def decodeResponse_def
        accept_all_def fresh_body_def record_ops_def EncodeToString_def)
  show "closes \<lparr>StatusCode = 200,
               Body = \<lparr>content = ''{}'', readErr = None, ops = [OpDecode, OpClose, OpClose]\<rparr>\<rparr> = 2"
    by (simp add: closes_def)
qed

lemma do_success_decoded:
  "do E c req (Some t) = Some (Some r', None, v') \<Longrightarrow>
   \<exists>r. r' = record_ops [OpDecode, OpClose] r"
  by (auto simp: do_def handleUnsuccessfulResponse_def decodeResponse_def Let_def
      split: option.splits prod.splits if_splits)

lemma closes_record_ops: "closes (record_ops os r) = closes r + length (filter (\<lambda>op. op = OpClose) os)"
  by (simp add: closes_def record_ops_def)

text \<open>
  The same on every success path: whenever \<open>ParseDocument\<close> returns without an error,
  the body of the response it received has been decoded, closed and closed again.
\<close>

lemma ParseDocument_success_closes:
  assumes "ParseDocument E R r ctx fileContents = Some ((resume, None), Some rr, evs)"
  shows "\<exists>r0. rr = record_ops [OpClose] (record_ops [OpDecode, OpClose] r0) \<and> closes rr = closes r0 + 2"
proof -
  from assms obtain h req resp where
    send: "do E h req (Some (zeroResume R)) = Some (Some resp, None, resume)"
    and rr: "rr = record_ops [OpClose] resp"
    by (auto simp: ParseDocument_def SendRequestAndUnmarshallJsonResponse_def sendRequest_def
        Let_def split: option.splits prod.splits)
  from do_success_decoded[OF send] obtain r0 where "resp = record_ops [OpDecode, OpClose] r0" ..
  with rr show ?thesis by (auto simp: closes_record_ops)
qed

section \<open>Options\<close>

text \<open>
  C7, as stated, fails: \<open>WithRequestDumpLogger\<close> changes two fields of the client at
  once, the logger and the flag.
\<close>

theorem C7_counterexample:
  "differing_fields new_client
     (applyOption (WithRequestDumpLogger (Some (DumpLogger 0)) True) new_client)
   = [F_requestDumpLogger, F_dumpRequestBody]"
  by (simp add: differing_fields_def new_client_def)

text \<open>
  C7, amended. In both packages, applying an option stores its argument in one field of
  the client, and that field is the only one on which the client before and the client
  after can differ: they differ on it exactly when the argument is not the value the
  field had. \<open>WithRequestDumpLogger\<close> is the exception: it stores its two arguments in
  two fields, \<open>requestDumpLogger\<close> and \<open>dumpRequestBody\<close>, and each of the two differs exactly
  when its argument is new. The retryable client, the token, the base URL and the HTTP
  client are never changed.
\<close>

theorem C7_frame:
  "(retryableHttpClient (applyOption opt c) = retryableHttpClient c
    \<and> (case opt of
          WithMaxIdleConns n \<Rightarrow>
            maxIdleConns (applyOption opt c) = n
            \<and> differing_fields c (applyOption opt c) =
                (if maxIdleConns c = n then [] else [F_maxIdleConns])
        | WithMaxIdleConnsPerHost n \<Rightarrow>
            maxIdleConnsPerHost (applyOption opt c) = n
            \<and> differing_fields c (applyOption opt c) =
                (if maxIdleConnsPerHost c = n then [] else [F_maxIdleConnsPerHost])
        | WithMaxConnsPerHost n \<Rightarrow>
            maxConnsPerHost (applyOption opt c) = n
            \<and> differing_fields c (applyOption opt c) =
                (if maxConnsPerHost c = n then [] else [F_maxConnsPerHost])
        | WithMaxRetries n \<Rightarrow>
            maxRetries (applyOption opt c) = n
            \<and> differing_fields c (applyOption opt c) =
                (if maxRetries c = n then [] else [F_maxRetries])
        | WithRetryWaitMin n \<Rightarrow>
            retryWaitMin (applyOption opt c) = n
            \<and> differing_fields c (applyOption opt c) =
                (if retryWaitMin c = n then [] else [F_retryWaitMin])
        | WithRetryWaitMax n \<Rightarrow>
            retryWaitMax (applyOption opt c) = n
            \<and> differing_fields c (applyOption opt c) =
                (if retryWaitMax c = n then [] else [F_retryWaitMax])
        | WithCheckRetryPolicy p \<Rightarrow>
            checkRetryPolicy (applyOption opt c) = p
            \<and> differing_fields c (applyOption opt c) =
                (if checkRetryPolicy c = p then [] else [F_checkRetryPolicy])
        | WithRequestDumpLogger l b \<Rightarrow>
            requestDumpLogger (applyOption opt c) = l
            \<and> dumpRequestBody (applyOption opt c) = b
            \<and> differing_fields c (applyOption opt c) =
                (if requestDumpLogger c = l then [] else [F_requestDumpLogger]) @
                (if dumpRequestBody c = b then [] else [F_dumpRequestBody])))
   \<and> (rioParseToken (applyOption_rps opt' c') = rioParseToken c'
    \<and> rioParseBaseUrl (applyOption_rps opt' c') = rioParseBaseUrl c'
    \<and> httpClient (applyOption_rps opt' c') = httpClient c'
    \<and> (case opt' of
          WithMaxIdleConns_rps n \<Rightarrow>
            maxIdleConns_rps (applyOption_rps opt' c') = n
            \<and> differing_fields_rps c' (applyOption_rps opt' c') =
                (if maxIdleConns_rps c' = n then [] else [F_maxIdleConns])
        | WithMaxIdleConnsPerHost_rps n \<Rightarrow>
            maxIdleConnsPerHost_rps (applyOption_rps opt' c') = n
            \<and> differing_fields_rps c' (applyOption_rps opt' c') =
                (if maxIdleConnsPerHost_rps c' = n then [] else [F_maxIdleConnsPerHost])
        | WithMaxConnsPerHost_rps n \<Rightarrow>
            maxConnsPerHost_rps (applyOption_rps opt' c') = n
            \<and> differing_fields_rps c' (applyOption_rps opt' c') =
                (if maxConnsPerHost_rps c' = n then [] else [F_maxConnsPerHost])
        | WithMaxRetries_rps n \<Rightarrow>
            maxRetries_rps (applyOption_rps opt' c') = n
            \<and> differing_fields_rps c' (applyOption_rps opt' c') =
                (if maxRetries_rps c' = n then [] else [F_maxRetries])
        | WithRetryWaitMin_rps d \<Rightarrow>
            retryWaitMin_rps (applyOption_rps opt' c') = d
            \<and> differing_fields_rps c' (applyOption_rps opt' c') =
                (if retryWaitMin_rps c' = d then [] else [F_retryWaitMin])
        | WithRetryWaitMax_rps d \<Rightarrow>
            retryWaitMax_rps (applyOption_rps opt' c') = d
            \<and> differing_fields_rps c' (applyOption_rps opt' c') =
                (if retryWaitMax_rps c' = d then [] else [F_retryWaitMax])
        | WithCheckRetryPolicy_rps p \<Rightarrow>
            checkRetryPolicy_rps (applyOption_rps opt' c') = p
            \<and> differing_fields_rps c' (applyOption_rps opt' c') =
                (if checkRetryPolicy_rps c' = p then [] else [F_checkRetryPolicy])
        | WithRequestDumpLogger_rps l b \<Rightarrow>
            requestDumpLogger_rps (applyOption_rps opt' c') = l
            \<and> dumpRequestBody_rps (applyOption_rps opt' c') = b
            \<and> differing_fields_rps c' (applyOption_rps opt' c') =
                (if requestDumpLogger_rps c' = l then [] else [F_requestDumpLogger]) @
                (if dumpRequestBody_rps c' = b then [] else [F_dumpRequestBody])))"
proof
  show "retryableHttpClient (applyOption opt c) = retryableHttpClient c
    \<and> (case opt of
          WithMaxIdleConns n \<Rightarrow>
            maxIdleConns (applyOption opt c) = n
            \<and> differing_fields c (applyOption opt c) =
                (if maxIdleConns c = n then [] else [F_maxIdleConns])
        | WithMaxIdleConnsPerHost n \<Rightarrow>
            maxIdleConnsPerHost (applyOption opt c) = n
            \<and> differing_fields c (applyOption opt c) =
                (if maxIdleConnsPerHost c = n then [] else [F_maxIdleConnsPerHost])
        | WithMaxConnsPerHost n \<Rightarrow>
            maxConnsPerHost (applyOption opt c) = n
            \<and> differing_fields c (applyOption opt c) =
                (if maxConnsPerHost c = n then [] else [F_maxConnsPerHost])
        | WithMaxRetries n \<Rightarrow>
            maxRetries (applyOption opt c) = n
            \<and> differing_fields c (applyOption opt c) =
                (if maxRetries c = n then [] else [F_maxRetries])
        | WithRetryWaitMin n \<Rightarrow>
            retryWaitMin (applyOption opt c) = n
            \<and> differing_fields c (applyOption opt c) =
                (if retryWaitMin c = n then [] else [F_retryWaitMin])
        | WithRetryWaitMax n \<Rightarrow>
            retryWaitMax (applyOption opt c) = n
            \<and> differing_fields c (applyOption opt c) =
                (if retryWaitMax c = n then [] else [F_retryWaitMax])
        | WithCheckRetryPolicy p \<Rightarrow>
            checkRetryPolicy (applyOption opt c) = p
            \<and> differing_fields c (applyOption opt c) =
                (if checkRetryPolicy c = p then [] else [F_checkRetryPolicy])
        | WithRequestDumpLogger l b \<Rightarrow>
            requestDumpLogger (applyOption opt c) = l
            \<and> dumpRequestBody (applyOption opt c) = b
            \<and> differing_fields c (applyOption opt c) =
                (if requestDumpLogger c = l then [] else [F_requestDumpLogger]) @
                (if dumpRequestBody c = b then [] else [F_dumpRequestBody]))"
    by (cases opt) (simp_all add: differing_fields_def)
  show "rioParseToken (applyOption_rps opt' c') = rioParseToken c'
    \<and> rioParseBaseUrl (applyOption_rps opt' c') = rioParseBaseUrl c'
    \<and> httpClient (applyOption_rps opt' c') = httpClient c'
    \<and> (case opt' of
          WithMaxIdleConns_rps n \<Rightarrow>
            maxIdleConns_rps (applyOption_rps opt' c') = n
            \<and> differing_fields_rps c' (applyOption_rps opt' c') =
                (if maxIdleConns_rps c' = n then [] else [F_maxIdleConns])
        | WithMaxIdleConnsPerHost_rps n \<Rightarrow>
            maxIdleConnsPerHost_rps (applyOption_rps opt' c') = n
            \<and> differing_fields_rps c' (applyOption_rps opt' c') =
                (if maxIdleConnsPerHost_rps c' = n then [] else [F_maxIdleConnsPerHost])
        | WithMaxConnsPerHost_rps n \<Rightarrow>
            maxConnsPerHost_rps (applyOption_rps opt' c') = n
            \<and> differing_fields_rps c' (applyOption_rps opt' c') =
                (if maxConnsPerHost_rps c' = n then [] else [F_maxConnsPerHost])
        | WithMaxRetries_rps n \<Rightarrow>
            maxRetries_rps (applyOption_rps opt' c') = n
            \<and> differing_fields_rps c' (applyOption_rps opt' c') =
                (if maxRetries_rps c' = n then [] else [F_maxRetries])
        | WithRetryWaitMin_rps d \<Rightarrow>
            retryWaitMin_rps (applyOption_rps opt' c') = d
            \<and> differing_fields_rps c' (applyOption_rps opt' c') =
                (if retryWaitMin_rps c' = d then [] else [F_retryWaitMin])
        | WithRetryWaitMax_rps d \<Rightarrow>
            retryWaitMax_rps (applyOption_rps opt' c') = d
            \<and> differing_fields_rps c' (applyOption_rps opt' c') =
                (if retryWaitMax_rps c' = d then [] else [F_retryWaitMax])
        | WithCheckRetryPolicy_rps p \<Rightarrow>
            checkRetryPolicy_rps (applyOption_rps opt' c') = p
            \<and> differing_fields_rps c' (applyOption_rps opt' c') =
                (if checkRetryPolicy_rps c' = p then [] else [F_checkRetryPolicy])
        | WithRequestDumpLogger_rps l b \<Rightarrow>
            requestDumpLogger_rps (applyOption_rps opt' c') = l
            \<and> dumpRequestBody_rps (applyOption_rps opt' c') = b
            \<and> differing_fields_rps c' (applyOption_rps opt' c') =
                (if requestDumpLogger_rps c' = l then [] else [F_requestDumpLogger]) @
                (if dumpRequestBody_rps c' = b then [] else [F_dumpRequestBody]))"
    by (cases opt') (simp_all add: differing_fields_rps_def)
qed

theorem C7_frame_witness:
  "maxRetries (applyOption (WithMaxRetries 3) new_client) = 3
   \<and> differing_fields new_client (applyOption (WithMaxRetries 3) new_client) = [F_maxRetries]
   \<and> requestDumpLogger_rps (applyOption_rps (WithRequestDumpLogger_rps (Some (DumpLogger 0)) True)
        new_resumeParsingServiceClient) = Some (DumpLogger 0)
   \<and> dumpRequestBody_rps (applyOption_rps (WithRequestDumpLogger_rps (Some (DumpLogger 0)) True)
        new_resumeParsingServiceClient)
   \<and> differing_fields_rps new_resumeParsingServiceClient
        (applyOption_rps (WithRequestDumpLogger_rps (Some (DumpLogger 0)) True)
           new_resumeParsingServiceClient)
      = [F_requestDumpLogger, F_dumpRequestBody]"
  using C7_frame[of "WithMaxRetries 3" new_client
      "WithRequestDumpLogger_rps (Some (DumpLogger 0)) True" new_resumeParsingServiceClient]
  by (simp add: new_client_def new_resumeParsingServiceClient_def)

section \<open>The diagnostic dump\<close>

text \<open>
  C8, as stated, fails: the serializer receives the request that is sent afterwards. A
  serializer that fails after it has consumed the body leaves a request with no body;
  the service then answers 400 where it answers 200 to the client with no logger.
\<close>

theorem C8_counterexample:
  "requestDumpLogger (New NewClient [WithRequestDumpLogger (Some (DumpLogger 0)) True])
     = Some (DumpLogger 0)
   \<and> fst (draining_dump ((get_request ''http://localhost'')\<lparr>Method := ''POST'', Body_req := ''data''\<rparr>) True)
      = ([], Some (ErrorsNew ''unexpected EOF''))
   \<and> sendRequest ((production accept_all needs_body)\<lparr>dumpRequestOut := draining_dump\<rparr>)
        (New NewClient [WithRequestDumpLogger (Some (DumpLogger 0)) True])
        ((get_request ''http://localhost'')\<lparr>Method := ''POST'', Body_req := ''data''\<rparr>) None
      = ([DumpRequestOutCalled
            ((get_request ''http://localhost'')\<lparr>Method := ''POST'', Body_req := ''data''\<rparr>) True],
         Some (Some \<lparr>StatusCode = 400,
                       Body = \<lparr>content = [], readErr = None, ops = [OpReadAll, OpClose]\<rparr>\<rparr>,
               Some (HttpError ''http://localhost'' 400 [] None), None))
   \<and> sendRequest ((production accept_all needs_body)\<lparr>dumpRequestOut := draining_dump\<rparr>)
        ((New NewClient [WithRequestDumpLogger (Some (DumpLogger 0)) True])\<lparr>requestDumpLogger := None\<rparr>)
        ((get_request ''http://localhost'')\<lparr>Method := ''POST'', Body_req := ''data''\<rparr>) None
      = ([],
         Some (Some \<lparr>StatusCode = 200,
                       Body = \<lparr>content = ''data'', readErr = None, ops = []\<rparr>\<rparr>,
               None, None))"
proof -
  let ?opts = "[WithRequestDumpLogger (Some (DumpLogger 0)) True]"
  have cfg: "requestDumpLogger (New NewClient ?opts) = Some (DumpLogger 0)
      \<and> dumpRequestBody (New NewClient ?opts)
      \<and> retryableHttpClient (New NewClient ?opts) =
          Some \<lparr>RetryMax = 0, RetryWaitMin = 0, RetryWaitMax = 0, CheckRetry = doNotRetryPolicy\<rparr>"
    by (simp add: New_config New_rhc newClient_def new_client_def)
  have ex: "execute needs_body \<lparr>RetryMax = 0, RetryWaitMin = 0, RetryWaitMax = 0,
      CheckRetry = doNotRetryPolicy\<rparr> req = (needs_body req 0, 1)" for req
    by (cases "needs_body req 0") (simp add: execute_def doNotRetryPolicy_def)
  show ?thesis
    by (simp add: cfg ex sendRequest_def logRequestDump_def do_def production_def
        draining_dump_def needs_body_def get_request_def handleUnsuccessfulResponse_def
        decodeResponse_def io_ReadAll_def fresh_body_def record_ops_def)
qed

text \<open>
  C8, amended. With a dump logger configured, when \<open>dumpRequestOut\<close> fails the only
  diagnostic event is the call of \<open>dumpRequestOut\<close>: the logger is not called and the
  failure is not returned. The request is then sent as the serializer left it: the
  response, error and target returned are those returned with no logger configured for
  that request, and so those for the original request when the serializer has left it
  unchanged. With no logger configured there is no diagnostic event at all, and the
  result is that of \<open>do\<close> on the request as given.
\<close>

theorem C8_dump_failure:
  "(requestDumpLogger c = Some l
      \<and> dumpRequestOut E req (dumpRequestBody c) = ((dump, Some e), req') \<longrightarrow>
      fst (sendRequest E c req v) = [DumpRequestOutCalled req (dumpRequestBody c)]
      \<and> logged (fst (sendRequest E c req v)) = []
      \<and> snd (sendRequest E c req v) = snd (sendRequest E (c\<lparr>requestDumpLogger := None\<rparr>) req' v)
      \<and> (req' = req \<longrightarrow>
           snd (sendRequest E c req v) = snd (sendRequest E (c\<lparr>requestDumpLogger := None\<rparr>) req v)))
   \<and> (requestDumpLogger c = None \<longrightarrow> sendRequest E c req v = ([], do E c req v))"
  by (simp add: sendRequest_def logRequestDump_def do_def)

theorem C8_dump_failure_witness:
  "sendRequest ((mock accept_all (Some \<lparr>StatusCode = 200, Body = fresh_body []\<rparr>) None)
                     \<lparr>dumpRequestOut := failing_dump\<rparr>)
        (New NewClient [WithRequestDumpLogger (Some (DumpLogger 0)) False])
        (get_request ''http://localhost/some/path'') None
      = ([DumpRequestOutCalled (get_request ''http://localhost/some/path'') False],
         Some (Some \<lparr>StatusCode = 200, Body = fresh_body []\<rparr>, None, None))
   \<and> snd (sendRequest ((mock accept_all (Some \<lparr>StatusCode = 200, Body = fresh_body []\<rparr>) None)
                     \<lparr>dumpRequestOut := failing_dump\<rparr>)
        ((New NewClient [WithRequestDumpLogger (Some (DumpLogger 0)) False])\<lparr>requestDumpLogger := None\<rparr>)
        (get_request ''http://localhost/some/path'') None)
      = Some (Some \<lparr>StatusCode = 200, Body = fresh_body []\<rparr>, None, None)
   \<and> sendRequest (mock accept_all (Some \<lparr>StatusCode = 200, Body = fresh_body []\<rparr>) None)
        (New NewClient []) (get_request ''http://localhost/some/path'') None
      = ([], Some (Some \<lparr>StatusCode = 200, Body = fresh_body []\<rparr>, None, None))"
proof -
  let ?E = "(mock accept_all (Some \<lparr>StatusCode = 200, Body = fresh_body []\<rparr>) None)
                     \<lparr>dumpRequestOut := failing_dump\<rparr>"
  let ?M = "mock accept_all (Some \<lparr>StatusCode = 200, Body = fresh_body []\<rparr>) None :: string env"
  let ?c = "New NewClient [WithRequestDumpLogger (Some (DumpLogger 0)) False]"
  let ?req = "get_request ''http://localhost/some/path''"
  have cfg: "requestDumpLogger ?c = Some (DumpLogger 0)" "dumpRequestBody ?c = False"
    "requestDumpLogger (New NewClient []) = None"
    by (simp_all add: New_config newClient_def new_client_def)
  have fail: "dumpRequestOut ?E ?req (dumpRequestBody ?c) = (([], Some (ErrorsNew ''random error'')), ?req)"
    by (simp add: failing_dump_def)
  have plain: "do ?E (?c\<lparr>requestDumpLogger := None\<rparr>) ?req None
      = Some (Some \<lparr>StatusCode = 200, Body = fresh_body []\<rparr>, None, None)"
    "do ?M (New NewClient []) ?req None
      = Some (Some \<lparr>StatusCode = 200, Body = fresh_body []\<rparr>, None, None)"
    by (simp_all add: do_def New_rhc mock_def handleUnsuccessfulResponse_def decodeResponse_def)
  have none: "snd (sendRequest ?E (?c\<lparr>requestDumpLogger := None\<rparr>) ?req None)
      = Some (Some \<lparr>StatusCode = 200, Body = fresh_body []\<rparr>, None, None)"
    using plain(1) by (simp add: sendRequest_def logRequestDump_def)
  from C8_dump_failure[of ?c "DumpLogger 0" ?E ?req "[]" "ErrorsNew ''random error''" ?req None]
    C8_dump_failure[of "New NewClient []" "DumpLogger 0" ?M ?req "[]" "ErrorsNew ''random error''" ?req None]
    cfg fail plain none
  show ?thesis by (simp add: prod_eq_iff)
qed

text \<open>
  C9. With a dump logger configured and \<open>dumpRequestOut\<close> at its initial value: when
  \<open>dumpRequestBody\<close> is false the logger receives the head of the request only, and
  receives the same bytes whatever the body of the request is; when \<open>dumpRequestBody\<close>
  is true it receives the head followed by the body, verbatim.
\<close>

theorem C9_dump_body:
  "requestDumpLogger c = Some l \<and> dumpRequestOut E = DumpRequestOut \<longrightarrow>
     (\<not> dumpRequestBody c \<longrightarrow>
        logged (fst (logRequestDump E c req)) = [wire_head req]
        \<and> (\<forall>b. logged (fst (logRequestDump E c (req\<lparr>Body_req := b\<rparr>)))
               = logged (fst (logRequestDump E c req))))
   \<and> (dumpRequestBody c \<longrightarrow>
        logged (fst (logRequestDump E c req)) = [wire_head req @ Body_req req])"
  by (simp add: logRequestDump_def DumpRequestOut_def wire_head_body)

theorem C9_dump_body_witness:
  "requestDumpLogger (New NewClient [WithRequestDumpLogger (Some (DumpLogger 0)) False])
     = Some (DumpLogger 0)
   \<and> dumpRequestOut (mock accept_all None None) = DumpRequestOut
   \<and> \<not> dumpRequestBody (New NewClient [WithRequestDumpLogger (Some (DumpLogger 0)) False])
   \<and> logged (fst (logRequestDump (mock accept_all None None)
        (New NewClient [WithRequestDumpLogger (Some (DumpLogger 0)) False])
        ((get_request ''http://localhost/some/path'')\<lparr>Body_req := ''secret''\<rparr>)))
      = [''GET http://localhost/some/path HTTP/1.1'' @ CRLF @ CRLF]
   \<and> dumpRequestBody (New NewClient [WithRequestDumpLogger (Some (DumpLogger 0)) True])
   \<and> logged (fst (logRequestDump (mock accept_all None None)
        (New NewClient [WithRequestDumpLogger (Some (DumpLogger 0)) True])
        ((get_request ''http://localhost/some/path'')\<lparr>Body_req := ''secret''\<rparr>)))
      = [''GET http://localhost/some/path HTTP/1.1'' @ CRLF @ CRLF @ ''secret'']"
  using C9_dump_body[of "New NewClient [WithRequestDumpLogger (Some (DumpLogger 0)) False]"
      "DumpLogger 0" "mock accept_all None None"
      "(get_request ''http://localhost/some/path'')\<lparr>Body_req := ''secret''\<rparr>"]
    C9_dump_body[of "New NewClient [WithRequestDumpLogger (Some (DumpLogger 0)) True]"
      "DumpLogger 0" "mock accept_all None None"
      "(get_request ''http://localhost/some/path'')\<lparr>Body_req := ''secret''\<rparr>"]
  by (simp add: New_config newClient_def new_client_def mock_def wire_head_def get_request_def)

end
